theory Spec2Isabelle
  imports Main "HOL-Library.Sublist" "HOL-Library.Multiset"
begin

section \<open>JavaScript values used by the dashboard\<close>

text \<open>
  The dashboard is JavaScript. A property that may be missing is an \<open>option\<close>
  (\<open>None\<close> is \<open>undefined\<close> or \<open>null\<close>). A string is falsy when it is missing or empty,
  which is what \<open>a || b\<close> and \<open>c ? x : y\<close> test. Strings are lists of characters, so
  \<open>substring(0, 8)\<close> is \<open>take 8\<close>.

  What the model takes as given:
  \<^item> the payload of a response that parses has the shape of its endpoint's contract
    (the records below), with any of its optional properties missing;
  \<^item> dates are epoch milliseconds, already parsed (\<open>new Date(s).getTime()\<close> on a
    well-formed date), so timestamps are \<open>int\<close>, and one reading \<open>now\<close> of the clock
    serves a whole aggregation pass;
  \<^item> the lookup object \<open>metadataMap\<close> is a finite map over its own properties: no
    document identifier is the name of a member of \<open>Object.prototype\<close>;
  \<^item> console output is listed in the order of the calls in the source; the requests of
    a \<open>Promise.all\<close> run concurrently, and nothing below depends on that order.
\<close>

datatype js_error = NetworkError | Error string | SyntaxError | TypeError

definition truthy :: "string option \<Rightarrow> bool" where
  "truthy v = (case v of None \<Rightarrow> False | Some s \<Rightarrow> s \<noteq> [])"

text \<open>\<open>a || b\<close> on two possibly missing strings.\<close>

definition js_or :: "string option \<Rightarrow> string option \<Rightarrow> string option" where
  "js_or a b = (if truthy a then a else b)"

text \<open>A value interpolated into a template literal or used as a property key.\<close>

definition template :: "string option \<Rightarrow> string" where
  "template v = (case v of None \<Rightarrow> ''undefined'' | Some s \<Rightarrow> s)"

text \<open>Decimal rendering of an integer, as \<open>Number.prototype.toString\<close> gives.\<close>

fun digits :: "nat \<Rightarrow> string" where
  "digits n = (if n < 10 then [''0123456789'' ! n]
               else digits (n div 10) @ [''0123456789'' ! (n mod 10)])"

declare digits.simps [simp del]

definition number_toString :: "int \<Rightarrow> string" where
  "number_toString n = (if n < 0 then ''-'' @ digits (nat (- n)) else digits (nat n))"

text \<open>\<open>s.replace(pat, rep)\<close> with a string pattern: the first occurrence only.\<close>

fun replace :: "string \<Rightarrow> string \<Rightarrow> string \<Rightarrow> string" where
  "replace pat rep [] = (if pat = [] then rep else [])"
| "replace pat rep (c # cs) =
     (if prefix pat (c # cs) then rep @ drop (length pat) (c # cs)
      else c # replace pat rep cs)"

section \<open>The time-age formatter\<close>

text \<open>
  \<open>formatTimeAgo(date)\<close> of \<open>utils/api.js\<close>; \<open>now\<close> is the reading of \<open>Date.now()\<close> and
  \<open>date\<close> is \<open>date.getTime()\<close>. \<open>Math.floor(x / k)\<close> on integers is \<open>div\<close>, which
  rounds down on \<open>int\<close>.
\<close>

definition formatTimeAgo :: "int \<Rightarrow> int \<Rightarrow> string" where
  "formatTimeAgo now date =
     (let seconds = (now - date) div 1000 in
      if seconds < 60 then ''just now''
      else let minutes = seconds div 60 in
        if minutes < 60
        then number_toString minutes @ '' minute'' @ (if minutes \<noteq> 1 then ''s'' else '''') @ '' ago''
        else let hours = minutes div 60 in
          if hours < 24
          then number_toString hours @ '' hour'' @ (if hours \<noteq> 1 then ''s'' else '''') @ '' ago''
          else let days = hours div 24 in
            number_toString days @ '' day'' @ (if days \<noteq> 1 then ''s'' else '''') @ '' ago'')"

section \<open>Remote payloads\<close>

text \<open>
  The records of the three endpoints the aggregation reads. A document may carry its
  identifier as \<open>id\<close> or as \<open>doc_id\<close>; a tag is a string or some other JSON value.
\<close>

record DocumentRecord =
  d_id :: "string option"
  d_doc_id :: "string option"
  d_name :: "string option"
  d_modified_time :: "int option"

datatype tag = TagString string | TagOther

record MetadataRecord =
  m_doc_id :: string
  m_name :: "string option"
  m_tags :: "tag list option"
  m_description :: "string option"

record VersionMetadata =
  chars_added :: "int option"

record VersionRecord =
  version_id :: "string option"
  created_at :: int
  v_metadata :: "VersionMetadata option"

record DocumentsResponse =
  dr_documents :: "DocumentRecord list option"

record MetadataResponse =
  mr_documents :: "MetadataRecord list option"
  mr_count :: "nat option"

record VersionsResponse =
  vr_versions :: "VersionRecord list option"

section \<open>The remote API client\<close>

text \<open>
  \<open>fetch(url)\<close> either rejects or resolves to a response with its \<open>ok\<close> flag and a body
  that \<open>response.json()\<close> parses (\<open>None\<close>: the body is not JSON). The backend is the
  answer of each endpoint at each URL, with the configured \<open>API_BASE_URL\<close>. Console
  output is collected in the order of the calls.
\<close>

datatype 'a http = Rejected | Response bool "'a option"

datatype console_entry = ConsoleError string js_error | ConsoleDebug string js_error

record backend =
  API_BASE_URL :: string
  documents_at :: "string \<Rightarrow> DocumentsResponse http"
  metadata_at :: "string \<Rightarrow> MetadataResponse http"
  versions_at :: "string \<Rightarrow> VersionsResponse http"

text \<open>
  The body of each wrapper's \<open>try\<close>:
  \<^verbatim>\<open>const response = await fetch(url);
  if (!response.ok) throw new Error(msg);
  return await response.json();\<close>
\<close>

fun fetch_json :: "string \<Rightarrow> 'a http \<Rightarrow> js_error + 'a" where
  "fetch_json msg Rejected = Inl NetworkError"
| "fetch_json msg (Response ok body) =
     (if \<not> ok then Inl (Error msg)
      else case body of None \<Rightarrow> Inl SyntaxError | Some v \<Rightarrow> Inr v)"

text \<open>The \<open>url\<close> constants of \<open>getDocuments\<close>, \<open>getAllMetadata\<close> and \<open>getVersionHistory\<close>.\<close>

definition documents_url :: "backend \<Rightarrow> string option \<Rightarrow> string" where
  "documents_url b folderId =
     (if truthy folderId
      then API_BASE_URL b @ ''/documents?folder_id='' @ template folderId
      else API_BASE_URL b @ ''/documents'')"

definition metadata_url :: "backend \<Rightarrow> string option \<Rightarrow> string" where
  "metadata_url b folderId =
     (if truthy folderId
      then API_BASE_URL b @ ''/documents/metadata/all?folder_id='' @ template folderId
      else API_BASE_URL b @ ''/documents/metadata/all'')"

definition versions_url :: "backend \<Rightarrow> string option \<Rightarrow> string" where
  "versions_url b docId = API_BASE_URL b @ ''/versions/'' @ template docId"

definition getDocuments :: "backend \<Rightarrow> string option \<Rightarrow> console_entry list \<times> DocumentsResponse" where
  "getDocuments b folderId =
     (let url = documents_url b folderId
      in case fetch_json ''Failed to fetch documents'' (documents_at b url) of
           Inr r \<Rightarrow> ([], r)
         | Inl error \<Rightarrow>
             ([ConsoleError ''Error fetching documents:'' error], \<lparr>dr_documents = Some []\<rparr>))"

definition getAllMetadata :: "backend \<Rightarrow> string option \<Rightarrow> console_entry list \<times> MetadataResponse" where
  "getAllMetadata b folderId =
     (let url = metadata_url b folderId
      in case fetch_json ''Failed to fetch metadata'' (metadata_at b url) of
           Inr r \<Rightarrow> ([], r)
         | Inl error \<Rightarrow>
             ([ConsoleError ''Error fetching metadata:'' error],
              \<lparr>mr_documents = Some [], mr_count = Some 0\<rparr>))"

text \<open>\<open>getVersionHistory\<close> logs the failure and throws it again.\<close>

definition getVersionHistory :: "backend \<Rightarrow> string option \<Rightarrow> console_entry list \<times> (js_error + VersionsResponse)" where
  "getVersionHistory b docId =
     (case fetch_json ''Failed to fetch version history''
             (versions_at b (versions_url b docId)) of
        Inr r \<Rightarrow> ([], Inr r)
      | Inl error \<Rightarrow> ([ConsoleError ''Error fetching version history:'' error], Inl error))"

section \<open>The aggregation engine\<close>

record Version =
  version :: nat
  versionId :: "string option"
  timestamp :: int
  charsAdded :: int

record Channel =
  id' :: "string option"
  name :: string
  status :: string
  messageCount :: nat
  lastUpdate :: string
  docUrl :: string
  actionCount :: nat
  slackChannelId :: string
  versions :: "Version list"
  metadata :: "MetadataRecord option"

text \<open>
  \<open>metadataList.forEach(meta => { metadataMap[meta.doc_id] = meta; })\<close>: a later record
  of the same \<open>doc_id\<close> overwrites an earlier one.
\<close>

definition metadataMap_of :: "MetadataRecord list \<Rightarrow> (string \<rightharpoonup> MetadataRecord)" where
  "metadataMap_of metadataList = fold (\<lambda>meta m. m(m_doc_id meta \<mapsto> meta)) metadataList Map.empty"

text \<open>\<open>v.metadata?.chars_added || 0\<close>\<close>

definition charsAdded_of :: "VersionRecord \<Rightarrow> int" where
  "charsAdded_of v =
     (case v_metadata v of None \<Rightarrow> 0
      | Some m \<Rightarrow> (case chars_added m of None \<Rightarrow> 0 | Some n \<Rightarrow> if n = 0 then 0 else n))"

text \<open>
  The \<open>try\<close>/\<open>catch\<close> around the version fetch of one document: \<open>versions\<close> stays \<open>[]\<close>
  when the fetch throws, and the error goes to \<open>console.debug\<close>.
\<close>

definition fetchVersions :: "backend \<Rightarrow> string option \<Rightarrow> console_entry list \<times> Version list" where
  "fetchVersions b docId =
     (case getVersionHistory b docId of
        (out, Inr versionResponse) \<Rightarrow>
          (out, map (\<lambda>(idx, v). \<lparr>version = idx + 1, versionId = version_id v,
                                 timestamp = created_at v, charsAdded = charsAdded_of v\<rparr>)
                    (enumerate 0 (case vr_versions versionResponse of None \<Rightarrow> [] | Some vs \<Rightarrow> vs)))
      | (out, Inl error) \<Rightarrow>
          (out @ [ConsoleDebug (''Could not fetch versions for '' @ template docId @ '':'') error], []))"

text \<open>
  \<open>metadata.tags?.find(t => typeof t === 'string' && t.startsWith('slack:'))\<close> and
  \<open>slackTag ? slackTag.replace('slack:', '') : ''\<close>; \<open>metadata\<close> is \<open>None\<close> for \<open>{}\<close>.
\<close>

fun is_slack_tag :: "tag \<Rightarrow> bool" where
  "is_slack_tag (TagString t) = prefix ''slack:'' t"
| "is_slack_tag TagOther = False"

definition slackTag_of :: "MetadataRecord option \<Rightarrow> string option" where
  "slackTag_of meta =
     (case meta of None \<Rightarrow> None
      | Some m \<Rightarrow> (case m_tags m of None \<Rightarrow> None
          | Some tags \<Rightarrow> (case find is_slack_tag tags of
                Some (TagString t) \<Rightarrow> Some t
              | _ \<Rightarrow> None)))"

definition slackChannelId_of :: "MetadataRecord option \<Rightarrow> string" where
  "slackChannelId_of meta =
     (let slackTag = slackTag_of meta
      in if truthy slackTag then replace ''slack:'' [] (the slackTag) else [])"

text \<open>
  \<open>metadata.name || doc.name || `Document ${docId.substring(0, 8)}`\<close>: the last operand
  is evaluated only when both names are falsy, and reading \<open>substring\<close> of a missing
  \<open>docId\<close> throws a \<open>TypeError\<close>.
\<close>

definition channelName :: "MetadataRecord option \<Rightarrow> DocumentRecord \<Rightarrow> string option \<Rightarrow> js_error + string" where
  "channelName meta doc docId =
     (let metadata_name = (case meta of None \<Rightarrow> None | Some m \<Rightarrow> m_name m)
      in if truthy metadata_name then Inr (the metadata_name)
         else if truthy (d_name doc) then Inr (the (d_name doc))
         else case docId of None \<Rightarrow> Inl TypeError
              | Some s \<Rightarrow> Inr (''Document '' @ take 8 s))"

text \<open>\<open>const docId = doc.id || doc.doc_id\<close>\<close>

definition docId_of :: "DocumentRecord \<Rightarrow> string option" where
  "docId_of doc = js_or (d_id doc) (d_doc_id doc)"

text \<open>The callback of \<open>documents.map(async (doc) => ...)\<close>, for one document.\<close>

definition channelOf :: "backend \<Rightarrow> int \<Rightarrow> (string \<rightharpoonup> MetadataRecord) \<Rightarrow> DocumentRecord
    \<Rightarrow> console_entry list \<times> (js_error + Channel)" where
  "channelOf b now metadataMap doc =
     (let docId = docId_of doc;
          meta = metadataMap (template docId);
          (out, vs) = fetchVersions b docId;
          slackId = slackChannelId_of meta
      in (out,
          case channelName meta doc docId of
            Inl error \<Rightarrow> Inl error
          | Inr nm \<Rightarrow> Inr
             \<lparr>id' = docId,
              name = nm,
              status = ''active'',
              messageCount = 0,
              lastUpdate = (case d_modified_time doc of None \<Rightarrow> ''never''
                            | Some t \<Rightarrow> formatTimeAgo now t),
              docUrl = ''https://docs.google.com/document/d/'' @ template docId,
              actionCount = length vs,
              slackChannelId = slackId,
              versions = vs,
              metadata = meta\<rparr>))"

text \<open>
  \<open>Promise.all\<close> over the callbacks' promises: the list of results when all resolve, a
  rejection when one rejects. Every callback runs to its end either way.
\<close>

fun promise_all :: "(js_error + 'a) list \<Rightarrow> js_error + 'a list" where
  "promise_all [] = Inr []"
| "promise_all (Inl error # rs) = Inl error"
| "promise_all (Inr x # rs) = (case promise_all rs of Inl error \<Rightarrow> Inl error | Inr xs \<Rightarrow> Inr (x # xs))"

definition getChannelsData :: "backend \<Rightarrow> int \<Rightarrow> string option
    \<Rightarrow> console_entry list \<times> (js_error + Channel list)" where
  "getChannelsData b now folderId =
     (let (out1, documentsResponse) = getDocuments b folderId;
          (out2, metadataResponse) = getAllMetadata b folderId;
          documents = (case dr_documents documentsResponse of None \<Rightarrow> [] | Some ds \<Rightarrow> ds);
          metadataList = (case mr_documents metadataResponse of None \<Rightarrow> [] | Some ms \<Rightarrow> ms);
          metadataMap = metadataMap_of metadataList;
          results = map (channelOf b now metadataMap) documents;
          out = out1 @ out2 @ concat (map fst results)
      in case promise_all (map snd results) of
           Inr channelsWithVersions \<Rightarrow> (out, Inr channelsWithVersions)
         | Inl error \<Rightarrow> (out @ [ConsoleError ''Error fetching channels data:'' error], Inl error))"

section \<open>The history view of the dashboard\<close>




section \<open>Reverting to a version\<close>

text \<open>
  \<open>revertVersion(docId, versionId)\<close> posts to
  \<open>`${API_BASE_URL}/revert/${docId}/${versionId}`\<close>. \<open>handleRevertVersion\<close> asks for
  confirmation first and chooses \<open>versionId || version.toString()\<close>; the model gives the
  requests it sends to the revert endpoint.
\<close>

record request =
  r_method :: string
  r_url :: string

definition revertVersion :: "string \<Rightarrow> string option \<Rightarrow> string \<Rightarrow> request" where
  "revertVersion base docId versionId' =
     \<lparr>r_method = ''POST'', r_url = base @ ''/revert/'' @ template docId @ ''/'' @ versionId'\<rparr>"

definition handleRevertVersion :: "bool \<Rightarrow> string \<Rightarrow> string option \<Rightarrow> nat \<Rightarrow> string option \<Rightarrow> request list" where
  "handleRevertVersion confirmed base documentId' version' versionId' =
     (if \<not> confirmed then []
      else let idToUse = (if truthy versionId' then the versionId'
                          else number_toString (int version'))
           in [revertVersion base documentId' idToUse])"

section \<open>A small backend to run the functions on\<close>

text \<open>
  Two documents: \<open>docA\<close> has a metadata record and three versions, \<open>docB\<close> has neither a
  name nor metadata and its version request is answered with a non-success status.
\<close>

definition docA :: DocumentRecord where
  "docA = \<lparr>d_id = Some ''docA-1234567'', d_doc_id = None, d_name = Some ''Notes'',
            d_modified_time = Some 1000000\<rparr>"

definition docB :: DocumentRecord where
  "docB = \<lparr>d_id = Some ''docB-7654321'', d_doc_id = None, d_name = None,
            d_modified_time = None\<rparr>"

definition metaA :: MetadataRecord where
  "metaA = \<lparr>m_doc_id = ''docA-1234567'', m_name = Some ''#engineering'',
             m_tags = Some [TagString ''x'', TagString ''slack:C123'', TagString ''y''],
             m_description = None\<rparr>"

definition versionsA :: "VersionRecord list" where
  "versionsA =
     [\<lparr>version_id = Some ''v-a'', created_at = 100, v_metadata = Some \<lparr>chars_added = Some 12\<rparr>\<rparr>,
      \<lparr>version_id = Some ''v-b'', created_at = 300, v_metadata = None\<rparr>,
      \<lparr>version_id = Some ''v-c'', created_at = 200, v_metadata = Some \<lparr>chars_added = None\<rparr>\<rparr>]"

definition example_backend :: backend where
  "example_backend =
     \<lparr>API_BASE_URL = ''/api/v1'',
      documents_at = (\<lambda>url. if url = ''/api/v1/documents''
                             then Response True (Some \<lparr>dr_documents = Some [docA, docB]\<rparr>)
                             else Rejected),
      metadata_at = (\<lambda>url. if url = ''/api/v1/documents/metadata/all''
                            then Response True (Some \<lparr>mr_documents = Some [metaA], mr_count = Some 1\<rparr>)
                            else Rejected),
      versions_at = (\<lambda>url. if url = ''/api/v1/versions/docA-1234567''
                            then Response True (Some \<lparr>vr_versions = Some versionsA\<rparr>)
                            else Response False None)\<rparr>"

text \<open>The same backend when the document list cannot be fetched.\<close>

definition offline_backend :: backend where
  "offline_backend = example_backend\<lparr>documents_at := (\<lambda>url. Rejected),
                                      metadata_at := (\<lambda>url. Response False None)\<rparr>"

text \<open>The Channels the aggregation gives on \<open>example_backend\<close> at time \<open>1060000\<close>.\<close>

definition example_channels :: "Channel list" where
  "example_channels =
     [\<lparr>id' = Some ''docA-1234567'', name = ''#engineering'', status = ''active'', messageCount = 0,
       lastUpdate = ''1 minute ago'', docUrl = ''https://docs.google.com/document/d/docA-1234567'',
       actionCount = 3, slackChannelId = ''C123'',
       versions = [\<lparr>version = 1, versionId = Some ''v-a'', timestamp = 100, charsAdded = 12\<rparr>,
                   \<lparr>version = 2, versionId = Some ''v-b'', timestamp = 300, charsAdded = 0\<rparr>,
                   \<lparr>version = 3, versionId = Some ''v-c'', timestamp = 200, charsAdded = 0\<rparr>],
       metadata = Some metaA\<rparr>,
      \<lparr>id' = Some ''docB-7654321'', name = ''Document docB-765'', status = ''active'', messageCount = 0,
       lastUpdate = ''never'', docUrl = ''https://docs.google.com/document/d/docB-7654321'',
       actionCount = 0, slackChannelId = [],
       versions = [], metadata = None\<rparr>]"

text \<open>The same backend when the version request of \<open>docB\<close> succeeds.\<close>

definition recovered_backend :: backend where
  "recovered_backend =
     example_backend\<lparr>versions_at := (versions_at example_backend)
        (''/api/v1/versions/docB-7654321'' := Response True (Some \<lparr>vr_versions = Some versionsA\<rparr>))\<rparr>"

section \<open>Facts about the helpers\<close>

lemma div_nested:
  "(s::int) div 60 div 60 = s div 3600"
  "(s::int) div 3600 div 24 = s div 86400"
  by (simp_all add: zdiv_zmult2_eq [symmetric])

lemma replace_prefix: "prefix pat s \<Longrightarrow> replace pat rep s = rep @ drop (length pat) s"
  by (cases s) auto

lemma find_first: "\<forall>x\<in>set pre. \<not> P x \<Longrightarrow> P t \<Longrightarrow> find P (pre @ t # post) = Some t"
  by (induction pre) auto

lemma find_none: "\<forall>x\<in>set xs. \<not> P x \<Longrightarrow> find P xs = None"
  by (induction xs) auto

text \<open>\<open>Promise.all\<close> resolves when every promise does, position by position.\<close>

lemma promise_all_resolves:
  "\<forall>x\<in>set xs. \<exists>y. f x = Inr y \<Longrightarrow>
   \<exists>ys. promise_all (map f xs) = Inr ys \<and> length ys = length xs
        \<and> (\<forall>i<length xs. f (xs ! i) = Inr (ys ! i))"
proof (induction xs)
  case Nil
  then show ?case by simp
next
  case (Cons x xs)
  then obtain y where y: "f x = Inr y" by auto
  from Cons obtain ys where ys: "promise_all (map f xs) = Inr ys" "length ys = length xs"
    "\<forall>i<length xs. f (xs ! i) = Inr (ys ! i)" by auto
  have "\<forall>i<length (x # xs). f ((x # xs) ! i) = Inr ((y # ys) ! i)"
    using y ys(3) by (auto simp: nth_Cons split: nat.splits)
  then show ?case using y ys by auto
qed

lemma promise_all_Inr:
  "promise_all rs = Inr ys \<Longrightarrow> length ys = length rs \<and> (\<forall>i<length rs. rs ! i = Inr (ys ! i))"
proof (induction rs arbitrary: ys rule: promise_all.induct)
  case 1
  then show ?case by simp
next
  case (2 error rs)
  then show ?case by simp
next
  case (3 x rs)
  then obtain xs where xs: "promise_all rs = Inr xs" "ys = x # xs"
    by (auto split: sum.splits)
  with 3 show ?case by (auto simp: nth_Cons split: nat.splits)
qed

text \<open>A document that has an identifier always gets its Channel.\<close>

lemma channelName_ok: "docId \<noteq> None \<Longrightarrow> \<exists>nm. channelName meta doc docId = Inr nm"
  by (auto simp: channelName_def Let_def)

lemma channelOf_ok:
  assumes "docId_of doc \<noteq> None"
  shows "\<exists>ch. snd (channelOf b now mm doc) = Inr ch"
proof -
  obtain nm where "channelName (mm (template (docId_of doc))) doc (docId_of doc) = Inr nm"
    using channelName_ok [OF assms] by blast
  then show ?thesis
    by (simp add: channelOf_def Let_def split_beta)
qed

lemma channelOf_Inr:
  assumes "snd (channelOf b now mm doc) = Inr ch"
  shows "id' ch = docId_of doc \<and> versions ch = snd (fetchVersions b (docId_of doc))
     \<and> actionCount ch = length (versions ch)
     \<and> Inr (name ch) = channelName (mm (template (docId_of doc))) doc (docId_of doc)"
  using assms by (auto simp: channelOf_def Let_def split_beta split: sum.splits)

text \<open>The result of the aggregation, without its console output.\<close>

lemma getChannelsData_snd:
  "snd (getChannelsData b now folderId) =
     promise_all (map (\<lambda>doc. snd (channelOf b now
         (metadataMap_of (case mr_documents (snd (getAllMetadata b folderId)) of
                            None \<Rightarrow> [] | Some ms \<Rightarrow> ms)) doc))
       (case dr_documents (snd (getDocuments b folderId)) of None \<Rightarrow> [] | Some ds \<Rightarrow> ds))"
  by (simp add: getChannelsData_def Let_def split_beta comp_def split: sum.splits)





text \<open>The tag that \<open>find\<close> returns is a string tag of the list with the prefix.\<close>

lemma slackTag_Some:
  assumes "slackTag_of meta = Some t"
  shows "\<exists>m tags. meta = Some m \<and> m_tags m = Some tags \<and> TagString t \<in> set tags
           \<and> prefix ''slack:'' t"
proof -
  from assms obtain m tags where m: "meta = Some m" "m_tags m = Some tags"
    "find is_slack_tag tags = Some (TagString t)"
    by (auto simp: slackTag_of_def split: option.splits tag.splits)
  from m(3) obtain k where k: "k < length tags" "is_slack_tag (tags ! k)" "TagString t = tags ! k"
    by (auto simp: find_Some_iff)
  from k have "TagString t \<in> set tags" by (metis nth_mem)
  moreover from k have "is_slack_tag (TagString t)" by simp
  ultimately show ?thesis using m by auto
qed

lemma slackChannelId_first:
  assumes "m_tags m = Some (pre @ TagString t # post)" and "prefix ''slack:'' t"
    and "\<forall>x\<in>set pre. \<not> is_slack_tag x"
  shows "slackChannelId_of (Some m) = drop 6 t"
proof -
  have "find is_slack_tag (pre @ TagString t # post) = Some (TagString t)"
    using assms by (simp add: find_first)
  then have "slackTag_of (Some m) = Some t"
    using assms(1) by (simp add: slackTag_of_def)
  moreover have "t \<noteq> []" using assms(2) by auto
  moreover have "replace ''slack:'' [] t = drop 6 t"
    using replace_prefix [OF assms(2), of "[]"] by (simp add: eval_nat_numeral)
  ultimately show ?thesis
    by (simp add: slackChannelId_of_def truthy_def)
qed

text \<open>Console output and the version fetch of one document.\<close>

lemma channelOf_fst: "fst (channelOf b now mm doc) = fst (fetchVersions b (docId_of doc))"
  by (simp add: channelOf_def Let_def split_beta)

lemma getChannelsData_console:
  assumes "dr_documents (snd (getDocuments b folderId)) = Some D" and "d \<in> set D"
  shows "set (fst (fetchVersions b (docId_of d))) \<subseteq> set (fst (getChannelsData b now folderId))"
  using assms
  by (auto simp: getChannelsData_def Let_def split_beta channelOf_fst split: sum.splits)

lemma fetchVersions_failed:
  assumes "fetch_json ''Failed to fetch version history'' (versions_at b (versions_url b docId)) = Inl e"
  shows "fetchVersions b docId =
           ([ConsoleError ''Error fetching version history:'' e,
             ConsoleDebug (''Could not fetch versions for '' @ template docId @ '':'') e], [])"
  using assms by (simp add: fetchVersions_def getVersionHistory_def)

lemma versions_url_inj:
  "versions_url b (Some x) = versions_url b (Some y) \<longleftrightarrow> x = y"
  by (simp add: versions_url_def template_def)

text \<open>Changing the answer to one version request leaves the other requests as they were.\<close>

lemma other_reply_same_lists:
  "getDocuments (b\<lparr>versions_at := f\<rparr>) folderId = getDocuments b folderId"
  "getAllMetadata (b\<lparr>versions_at := f\<rparr>) folderId = getAllMetadata b folderId"
  by (simp_all add: getDocuments_def getAllMetadata_def documents_url_def metadata_url_def)

lemma other_reply_same_channel:
  assumes "versions_url b (docId_of doc) \<noteq> u"
  shows "channelOf (b\<lparr>versions_at := (versions_at b)(u := r)\<rparr>) now mm doc = channelOf b now mm doc"
  using assms
  by (simp add: channelOf_def fetchVersions_def getVersionHistory_def versions_url_def)



text \<open>The example backends, evaluated.\<close>

lemma example_run:
  "snd (getChannelsData example_backend 1060000 None) = Inr example_channels"
  by code_simp

lemma example_documents:
  "dr_documents (snd (getDocuments example_backend None)) = Some [docA, docB]"
  "dr_documents (snd (getDocuments recovered_backend None)) = Some [docA, docB]"
  "mr_documents (snd (getAllMetadata example_backend None)) = Some [metaA]"
  by code_simp+

lemma example_ids: "\<forall>d\<in>set [docA, docB]. docId_of d \<noteq> None"
  by (simp add: docId_of_def js_or_def truthy_def docA_def docB_def)

section \<open>One Channel per document, in the order of the document list\<close>

text \<open>
  Claim C1. Let \<open>D\<close> be the document list the aggregation reads, every document of it
  carrying an identifier (\<open>id\<close>, or else \<open>doc_id\<close>). Whatever the metadata request and the
  version requests answer, also when they fail, \<open>getChannelsData\<close> returns a list of
  exactly \<open>|D|\<close> Channels, and the \<open>i\<close>-th Channel has the identifier of \<open>D[i]\<close>: its \<open>id\<close>
  property whenever that is a non-empty string.
\<close>

theorem getChannelsData_one_channel_per_document:
  assumes docs: "dr_documents (snd (getDocuments b folderId)) = Some D"
    and ids: "\<forall>d\<in>set D. docId_of d \<noteq> None"
  shows "\<exists>chans. snd (getChannelsData b now folderId) = Inr chans
           \<and> length chans = length D
           \<and> (\<forall>i<length D. id' (chans ! i) = docId_of (D ! i))
           \<and> (\<forall>i<length D. truthy (d_id (D ! i)) \<longrightarrow> id' (chans ! i) = d_id (D ! i))"
proof -
  let ?mm = "metadataMap_of (case mr_documents (snd (getAllMetadata b folderId)) of
                            None \<Rightarrow> [] | Some ms \<Rightarrow> ms)"
  let ?f = "\<lambda>doc. snd (channelOf b now ?mm doc)"
  have "\<forall>d\<in>set D. \<exists>ch. ?f d = Inr ch"
    using ids channelOf_ok by blast
  then obtain chans where chans: "promise_all (map ?f D) = Inr chans" "length chans = length D"
    "\<forall>i<length D. ?f (D ! i) = Inr (chans ! i)"
    using promise_all_resolves [of D ?f] by blast
  have res: "snd (getChannelsData b now folderId) = Inr chans"
    using chans(1) docs by (simp add: getChannelsData_snd)
  have idx: "\<forall>i<length D. id' (chans ! i) = docId_of (D ! i)"
    using chans(3) channelOf_Inr by blast
  have "\<forall>i<length D. truthy (d_id (D ! i)) \<longrightarrow> id' (chans ! i) = d_id (D ! i)"
    using idx by (simp add: docId_of_def js_or_def)
  with res chans(2) idx show ?thesis by blast
qed

theorem getChannelsData_one_channel_per_document_witness:
  "\<exists>chans. snd (getChannelsData example_backend 1060000 None) = Inr chans
      \<and> length chans = 2
      \<and> id' (chans ! 0) = Some ''docA-1234567'' \<and> id' (chans ! 1) = Some ''docB-7654321''"
  using getChannelsData_one_channel_per_document
          [OF example_documents(1) example_ids, of 1060000]
  by (auto simp: docId_of_def js_or_def docA_def docB_def truthy_def)

text \<open>
  The identifier is what the data model requires of a document. For a record with no
  identifier and no name the callback reads \<open>substring\<close> of \<open>undefined\<close>, and the pass
  rejects with that \<open>TypeError\<close>.
\<close>

lemma getChannelsData_record_without_identifier:
  "snd (getChannelsData
          (example_backend\<lparr>documents_at := (\<lambda>url. Response True (Some \<lparr>dr_documents =
             Some [\<lparr>d_id = None, d_doc_id = None, d_name = None, d_modified_time = None\<rparr>]\<rparr>))\<rparr>)
          1060000 None) = Inl TypeError"
  by code_simp

section \<open>A failed version fetch stays with its document\<close>

text \<open>
  Claim C2. Let documents \<open>A = D[i]\<close> and \<open>B = D[j]\<close> of the aggregation input have
  different identifiers, and let the version request for \<open>A\<close> fail with error \<open>e\<close>. Then
  the aggregation still returns its Channels: the Channel of \<open>A\<close> has no versions and
  \<open>actionCount\<close> 0, the error is written to the console and not raised, and the
  Channel of \<open>B\<close> (all of its fields, so its name, versions and \<open>actionCount\<close>) is the
  same as with any other answer \<open>r\<close> to the request for \<open>A\<close>, a successful one included.
\<close>

theorem version_fetch_failure_isolated:
  assumes docs: "dr_documents (snd (getDocuments b folderId)) = Some D"
    and ids: "\<forall>d\<in>set D. docId_of d \<noteq> None"
    and i: "i < length D" and j: "j < length D"
    and distinct: "docId_of (D ! j) \<noteq> docId_of (D ! i)"
    and fails: "fetch_json ''Failed to fetch version history''
                  (versions_at b (versions_url b (docId_of (D ! i)))) = Inl e"
  shows "\<exists>chans. snd (getChannelsData b now folderId) = Inr chans
          \<and> versions (chans ! i) = [] \<and> actionCount (chans ! i) = 0
          \<and> ConsoleDebug (''Could not fetch versions for '' @ template (docId_of (D ! i)) @ '':'') e
               \<in> set (fst (getChannelsData b now folderId))
          \<and> (\<forall>r. \<exists>chans'.
                snd (getChannelsData
                       (b\<lparr>versions_at := (versions_at b)(versions_url b (docId_of (D ! i)) := r)\<rparr>)
                       now folderId) = Inr chans'
                \<and> chans' ! j = chans ! j)"
proof -
  let ?u = "versions_url b (docId_of (D ! i))"
  let ?mm = "metadataMap_of (case mr_documents (snd (getAllMetadata b folderId)) of
                            None \<Rightarrow> [] | Some ms \<Rightarrow> ms)"
  have all_ok: "\<forall>d\<in>set D. \<exists>ch. snd (channelOf b' now ?mm d) = Inr ch" for b'
    using ids channelOf_ok by blast
  obtain chans where chans: "promise_all (map (\<lambda>doc. snd (channelOf b now ?mm doc)) D) = Inr chans"
    "\<forall>k<length D. snd (channelOf b now ?mm (D ! k)) = Inr (chans ! k)"
    using promise_all_resolves [OF all_ok, of b] by blast
  have res: "snd (getChannelsData b now folderId) = Inr chans"
    using chans(1) docs by (simp add: getChannelsData_snd)
  have "snd (channelOf b now ?mm (D ! i)) = Inr (chans ! i)"
    using chans(2) i by simp
  from channelOf_Inr [OF this] have vi: "versions (chans ! i) = []" "actionCount (chans ! i) = 0"
    by (simp_all add: fetchVersions_failed [OF fails])
  have "D ! i \<in> set D" using i by simp
  from getChannelsData_console [OF docs this, of now]
  have logged: "ConsoleDebug (''Could not fetch versions for '' @ template (docId_of (D ! i)) @ '':'') e
               \<in> set (fst (getChannelsData b now folderId))"
    by (simp add: fetchVersions_failed [OF fails])
  have url: "versions_url b (docId_of (D ! j)) \<noteq> ?u"
  proof -
    obtain x y where "docId_of (D ! j) = Some x" "docId_of (D ! i) = Some y"
      using ids i j by (metis nth_mem option.exhaust)
    with distinct show ?thesis by (simp add: versions_url_inj)
  qed
  have other: "\<exists>chans'. snd (getChannelsData (b\<lparr>versions_at := (versions_at b)(?u := r)\<rparr>) now folderId)
                   = Inr chans' \<and> chans' ! j = chans ! j" for r
  proof -
    let ?b' = "b\<lparr>versions_at := (versions_at b)(?u := r)\<rparr>"
    obtain chans' where chans': "promise_all (map (\<lambda>doc. snd (channelOf ?b' now ?mm doc)) D) = Inr chans'"
      "\<forall>k<length D. snd (channelOf ?b' now ?mm (D ! k)) = Inr (chans' ! k)"
      using promise_all_resolves [OF all_ok, of ?b'] by blast
    have "snd (getChannelsData ?b' now folderId) = Inr chans'"
      using chans'(1) docs by (simp add: getChannelsData_snd other_reply_same_lists)
    moreover have "chans' ! j = chans ! j"
    proof -
      have "snd (channelOf ?b' now ?mm (D ! j)) = Inr (chans' ! j)"
        using chans'(2) j by blast
      then have "Inr (chans' ! j) = snd (channelOf b now ?mm (D ! j))"
        by (simp only: other_reply_same_channel [OF url])
      also have "\<dots> = Inr (chans ! j)"
        using chans(2) j by blast
      finally show ?thesis by simp
    qed
    ultimately show ?thesis by simp
  qed
  from res vi logged other show ?thesis by blast
qed

theorem version_fetch_failure_isolated_witness:
  "\<exists>chans chans'. snd (getChannelsData example_backend 1060000 None) = Inr chans
      \<and> versions (chans ! 1) = [] \<and> actionCount (chans ! 1) = 0
      \<and> snd (getChannelsData recovered_backend 1060000 None) = Inr chans'
      \<and> chans' ! 0 = chans ! 0 \<and> name (chans ! 0) = ''#engineering''
      \<and> length (versions (chans' ! 1)) = 3"
proof -
  have i: "1 < length [docA, docB]" and j: "0 < length [docA, docB]"
    by simp_all
  have distinct: "docId_of ([docA, docB] ! 0) \<noteq> docId_of ([docA, docB] ! 1)"
    by (simp add: docId_of_def js_or_def truthy_def docA_def docB_def)
  have u: "versions_url example_backend (docId_of ([docA, docB] ! 1)) = ''/api/v1/versions/docB-7654321''"
    by code_simp
  have fails: "fetch_json ''Failed to fetch version history''
      (versions_at example_backend (versions_url example_backend (docId_of ([docA, docB] ! 1))))
      = Inl (Error ''Failed to fetch version history'')"
    by code_simp
  have rec: "length (versions (projr (snd (getChannelsData recovered_backend 1060000 None)) ! 1)) = 3"
    by code_simp
  from version_fetch_failure_isolated [OF example_documents(1) example_ids i j distinct fails, of 1060000]
  obtain chans where chans: "snd (getChannelsData example_backend 1060000 None) = Inr chans"
    "versions (chans ! 1) = []" "actionCount (chans ! 1) = 0"
    and other: "\<forall>r. \<exists>chans'.
       snd (getChannelsData
              (example_backend\<lparr>versions_at := (versions_at example_backend)
                 (versions_url example_backend (docId_of ([docA, docB] ! 1)) := r)\<rparr>)
              1060000 None) = Inr chans' \<and> chans' ! 0 = chans ! 0"
    by blast
  from other obtain chans' where chans':
    "snd (getChannelsData recovered_backend 1060000 None) = Inr chans'" "chans' ! 0 = chans ! 0"
    unfolding u recovered_backend_def by blast
  have "chans = example_channels"
    using chans(1) example_run by simp
  then have "name (chans ! 0) = ''#engineering''"
    by (simp add: example_channels_def)
  moreover have "length (versions (chans' ! 1)) = 3"
    using rec by (simp add: chans'(1))
  ultimately show ?thesis using chans chans' by blast
qed

section \<open>The name of a Channel\<close>



section \<open>The Slack channel of a Channel\<close>

text \<open>
  Claim C4, as amended. The derived \<open>slackChannelId\<close> is non-empty only if at least one
  tag of the metadata record is a string that begins with "slack:". When several tags
  do, the first of them in the order of the list is used, with the prefix removed, so
  the tags "x", "slack:C123", "y" give "C123". A tag list with no such tag, a metadata
  record without tags and a document without metadata give the empty string.
\<close>

theorem slackChannelId_first_match:
  "(slackChannelId_of meta \<noteq> [] \<longrightarrow>
      (\<exists>m tags t. meta = Some m \<and> m_tags m = Some tags \<and> TagString t \<in> set tags
          \<and> prefix ''slack:'' t))
   \<and> (m_tags m1 = Some (pre @ TagString t1 # post) \<and> prefix ''slack:'' t1
          \<and> (\<forall>x\<in>set pre. \<not> is_slack_tag x) \<longrightarrow> slackChannelId_of (Some m1) = drop 6 t1)
   \<and> (m_tags m2 = Some tags2 \<and> (\<forall>x\<in>set tags2. \<not> is_slack_tag x)
          \<longrightarrow> slackChannelId_of (Some m2) = [])
   \<and> (m_tags m3 = Some [TagString ''x'', TagString ''slack:C123'', TagString ''y'']
          \<longrightarrow> slackChannelId_of (Some m3) = ''C123'')
   \<and> (m_tags m4 = None \<longrightarrow> slackChannelId_of (Some m4) = [])
   \<and> slackChannelId_of None = []"
proof -
  have 1: "slackChannelId_of meta \<noteq> [] \<longrightarrow>
      (\<exists>m tags t. meta = Some m \<and> m_tags m = Some tags \<and> TagString t \<in> set tags
          \<and> prefix ''slack:'' t)"
  proof
    assume "slackChannelId_of meta \<noteq> []"
    then obtain t where "slackTag_of meta = Some t"
      by (auto simp: slackChannelId_of_def Let_def truthy_def split: if_splits option.splits)
    from slackTag_Some [OF this] show "\<exists>m tags t. meta = Some m \<and> m_tags m = Some tags
        \<and> TagString t \<in> set tags \<and> prefix ''slack:'' t" by blast
  qed
  have 2: "m_tags m1 = Some (pre @ TagString t1 # post) \<and> prefix ''slack:'' t1
          \<and> (\<forall>x\<in>set pre. \<not> is_slack_tag x) \<longrightarrow> slackChannelId_of (Some m1) = drop 6 t1"
    using slackChannelId_first by blast
  have 3: "m_tags m2 = Some tags2 \<and> (\<forall>x\<in>set tags2. \<not> is_slack_tag x)
          \<longrightarrow> slackChannelId_of (Some m2) = []"
    by (auto simp: slackChannelId_of_def slackTag_of_def find_none truthy_def)
  have 4: "m_tags m3 = Some [TagString ''x'', TagString ''slack:C123'', TagString ''y'']
          \<longrightarrow> slackChannelId_of (Some m3) = ''C123''"
    by (auto simp: slackChannelId_of_def slackTag_of_def truthy_def)
  have 5: "m_tags m4 = None \<longrightarrow> slackChannelId_of (Some m4) = []"
    by (simp add: slackChannelId_of_def slackTag_of_def truthy_def)
  have 6: "slackChannelId_of None = []"
    by (simp add: slackChannelId_of_def slackTag_of_def truthy_def)
  from 1 2 3 4 5 6 show ?thesis by blast
qed

theorem slackChannelId_first_match_witness:
  "slackChannelId_of (Some \<lparr>m_doc_id = ''docA-1234567'', m_name = None,
       m_tags = Some [TagOther, TagString ''slack:C123'', TagString ''slack:C456''],
       m_description = None\<rparr>) = ''C123''
   \<and> slackChannelId_of (Some metaA) = ''C123''
   \<and> slackChannelId_of (Some \<lparr>m_doc_id = ''docA-1234567'', m_name = None,
       m_tags = Some [TagString ''x'', TagString ''y''], m_description = None\<rparr>) = []"
  using slackChannelId_first_match
    [where ?m1.0 = "\<lparr>m_doc_id = ''docA-1234567'', m_name = None,
         m_tags = Some [TagOther, TagString ''slack:C123'', TagString ''slack:C456''],
         m_description = None\<rparr>"
      and pre = "[TagOther]" and ?t1.0 = "''slack:C123''" and post = "[TagString ''slack:C456'']"
      and ?m2.0 = "\<lparr>m_doc_id = ''docA-1234567'', m_name = None,
         m_tags = Some [TagString ''x'', TagString ''y''], m_description = None\<rparr>"
      and ?tags2.0 = "[TagString ''x'', TagString ''y'']"
      and ?m3.0 = metaA]
  by (simp add: metaA_def)

text \<open>
  As the claim is written, a non-empty \<open>slackChannelId\<close> needs exactly one tag with the
  prefix. With the tags "slack:C123", "slack:C456" two tags have it and the result is
  "C123".
\<close>

theorem slackChannelId_two_matches:
  "slackChannelId_of (Some \<lparr>m_doc_id = ''docA-1234567'', m_name = None,
       m_tags = Some [TagString ''slack:C123'', TagString ''slack:C456''],
       m_description = None\<rparr>) = ''C123''
   \<and> ''C123'' \<noteq> []
   \<and> length (filter is_slack_tag [TagString ''slack:C123'', TagString ''slack:C456'']) = 2"
  by (simp add: slackChannelId_of_def slackTag_of_def truthy_def)

section \<open>The time-age formatter: buckets\<close>

text \<open>
  Claim C5. \<open>formatTimeAgo\<close> depends only on the elapsed time \<open>now - date\<close>. For an elapsed
  time of \<open>s\<close> whole seconds and \<open>r\<close> further milliseconds, \<open>s \<ge> 0\<close>: below 60 seconds the
  result is "just now"; from 60 seconds and below 3600 it is \<open>s div 60\<close> minutes; from
  3600 seconds and below 86400 it is \<open>s div 3600\<close> hours; from 86400 seconds on it is
  \<open>s div 86400\<close> days; the unit is singular exactly when the count is 1. At 0 s and 59 s
  the result is "just now", at 60 s "1 minute ago", at 3599 s "59 minutes ago", at 3600 s
  "1 hour ago", at 86400 s "1 day ago".
\<close>

theorem formatTimeAgo_buckets:
  fixes date s r :: int
  assumes "0 \<le> s" and "0 \<le> r" and "r < 1000"
  shows "(s < 60 \<longrightarrow> formatTimeAgo (date + (1000 * s + r)) date = ''just now'')
     \<and> (60 \<le> s \<and> s < 3600 \<longrightarrow> formatTimeAgo (date + (1000 * s + r)) date
            = number_toString (s div 60) @ '' minute'' @ (if s div 60 = 1 then [] else ''s'') @ '' ago'')
     \<and> (3600 \<le> s \<and> s < 86400 \<longrightarrow> formatTimeAgo (date + (1000 * s + r)) date
            = number_toString (s div 3600) @ '' hour'' @ (if s div 3600 = 1 then [] else ''s'') @ '' ago'')
     \<and> (86400 \<le> s \<longrightarrow> formatTimeAgo (date + (1000 * s + r)) date
            = number_toString (s div 86400) @ '' day'' @ (if s div 86400 = 1 then [] else ''s'') @ '' ago'')
     \<and> (\<forall>now' date'. now' - date' = 1000 * s + r \<longrightarrow>
            formatTimeAgo (date + (1000 * s + r)) date = formatTimeAgo now' date')
     \<and> formatTimeAgo (date + 0) date = ''just now''
     \<and> formatTimeAgo (date + 59000) date = ''just now''
     \<and> formatTimeAgo (date + 60000) date = ''1 minute ago''
     \<and> formatTimeAgo (date + 3599000) date = ''59 minutes ago''
     \<and> formatTimeAgo (date + 3600000) date = ''1 hour ago''
     \<and> formatTimeAgo (date + 86400000) date = ''1 day ago''"
proof -
  have sec: "(date + (1000 * s + r) - date) div 1000 = s"
    using assms by simp
  have m: "s div 60 < 60 \<longleftrightarrow> s < 3600" by linarith
  have h: "s div 3600 < 24 \<longleftrightarrow> s < 86400" by linarith
  have buckets: "(s < 60 \<longrightarrow> formatTimeAgo (date + (1000 * s + r)) date = ''just now'')
     \<and> (60 \<le> s \<and> s < 3600 \<longrightarrow> formatTimeAgo (date + (1000 * s + r)) date
            = number_toString (s div 60) @ '' minute'' @ (if s div 60 = 1 then [] else ''s'') @ '' ago'')
     \<and> (3600 \<le> s \<and> s < 86400 \<longrightarrow> formatTimeAgo (date + (1000 * s + r)) date
            = number_toString (s div 3600) @ '' hour'' @ (if s div 3600 = 1 then [] else ''s'') @ '' ago'')
     \<and> (86400 \<le> s \<longrightarrow> formatTimeAgo (date + (1000 * s + r)) date
            = number_toString (s div 86400) @ '' day'' @ (if s div 86400 = 1 then [] else ''s'') @ '' ago'')"
    unfolding formatTimeAgo_def Let_def sec div_nested m h by auto
  have pure: "\<forall>now' date'. now' - date' = 1000 * s + r \<longrightarrow>
            formatTimeAgo (date + (1000 * s + r)) date = formatTimeAgo now' date'"
    by (simp add: formatTimeAgo_def)
  have examples: "formatTimeAgo (date + 0) date = ''just now''"
    "formatTimeAgo (date + 59000) date = ''just now''"
    "formatTimeAgo (date + 60000) date = ''1 minute ago''"
    "formatTimeAgo (date + 3599000) date = ''59 minutes ago''"
    "formatTimeAgo (date + 3600000) date = ''1 hour ago''"
    "formatTimeAgo (date + 86400000) date = ''1 day ago''"
    by (simp_all add: formatTimeAgo_def Let_def number_toString_def digits.simps)
  from buckets pure examples show ?thesis by blast
qed

theorem formatTimeAgo_buckets_witness:
  "formatTimeAgo 7325999 0 = ''2 hours ago'' \<and> formatTimeAgo (1000 + 125500) 1000 = ''2 minutes ago''
   \<and> formatTimeAgo 172800000 0 = ''2 days ago''"
  using formatTimeAgo_buckets [of 7325 999 0] formatTimeAgo_buckets [of 125 500 1000]
    formatTimeAgo_buckets [of 172800 0 0]
  by (simp add: number_toString_def digits.simps)

section \<open>A failed list request gives an empty list\<close>

text \<open>
  Claim C6. When the request for the document list fails with error \<open>e\<close>, \<open>getDocuments\<close>
  writes the error to the console and returns an empty document list, and the
  aggregation returns the empty Channel list instead of raising. When the request for
  the metadata list fails with error \<open>e'\<close>, \<open>getAllMetadata\<close> writes the error to the
  console and returns an empty metadata list, and the aggregation returns what it
  returns when that request succeeds with an empty list.
\<close>

theorem list_fetch_failure_degrades:
  "(fetch_json ''Failed to fetch documents'' (documents_at b (documents_url b folderId)) = Inl e \<longrightarrow>
      getDocuments b folderId
        = ([ConsoleError ''Error fetching documents:'' e], \<lparr>dr_documents = Some []\<rparr>)
      \<and> snd (getChannelsData b now folderId) = Inr []
      \<and> ConsoleError ''Error fetching documents:'' e \<in> set (fst (getChannelsData b now folderId)))
   \<and> (fetch_json ''Failed to fetch metadata'' (metadata_at b (metadata_url b folderId)) = Inl e' \<longrightarrow>
      getAllMetadata b folderId
        = ([ConsoleError ''Error fetching metadata:'' e'], \<lparr>mr_documents = Some [], mr_count = Some 0\<rparr>)
      \<and> snd (getChannelsData b now folderId)
          = snd (getChannelsData
                   (b\<lparr>metadata_at :=
                        (\<lambda>url. Response True (Some \<lparr>mr_documents = Some [], mr_count = Some 0\<rparr>))\<rparr>)
                   now folderId)
      \<and> ConsoleError ''Error fetching metadata:'' e' \<in> set (fst (getChannelsData b now folderId)))"
proof -
  have 1: "fetch_json ''Failed to fetch documents'' (documents_at b (documents_url b folderId)) = Inl e \<longrightarrow>
      getDocuments b folderId
        = ([ConsoleError ''Error fetching documents:'' e], \<lparr>dr_documents = Some []\<rparr>)
      \<and> snd (getChannelsData b now folderId) = Inr []
      \<and> ConsoleError ''Error fetching documents:'' e \<in> set (fst (getChannelsData b now folderId))"
    by (simp add: getDocuments_def getChannelsData_def Let_def split_beta)
  have 2: "fetch_json ''Failed to fetch metadata'' (metadata_at b (metadata_url b folderId)) = Inl e' \<longrightarrow>
      getAllMetadata b folderId
        = ([ConsoleError ''Error fetching metadata:'' e'], \<lparr>mr_documents = Some [], mr_count = Some 0\<rparr>)
      \<and> snd (getChannelsData b now folderId)
          = snd (getChannelsData
                   (b\<lparr>metadata_at :=
                        (\<lambda>url. Response True (Some \<lparr>mr_documents = Some [], mr_count = Some 0\<rparr>))\<rparr>)
                   now folderId)
      \<and> ConsoleError ''Error fetching metadata:'' e' \<in> set (fst (getChannelsData b now folderId))"
  proof
    assume f: "fetch_json ''Failed to fetch metadata'' (metadata_at b (metadata_url b folderId)) = Inl e'"
    let ?b' = "b\<lparr>metadata_at :=
                   (\<lambda>url. Response True (Some \<lparr>mr_documents = Some [], mr_count = Some 0\<rparr>))\<rparr>"
    have m: "getAllMetadata b folderId
        = ([ConsoleError ''Error fetching metadata:'' e'], \<lparr>mr_documents = Some [], mr_count = Some 0\<rparr>)"
      using f by (simp add: getAllMetadata_def)
    have m': "snd (getAllMetadata ?b' folderId) = \<lparr>mr_documents = Some [], mr_count = Some 0\<rparr>"
      by (simp add: getAllMetadata_def)
    have d': "getDocuments ?b' folderId = getDocuments b folderId"
      by (simp add: getDocuments_def documents_url_def)
    have c': "channelOf ?b' now mm doc = channelOf b now mm doc" for mm doc
      by (simp add: channelOf_def fetchVersions_def getVersionHistory_def versions_url_def)
    have "snd (getChannelsData b now folderId) = snd (getChannelsData ?b' now folderId)"
      by (simp add: getChannelsData_snd m m' d' c')
    moreover have "ConsoleError ''Error fetching metadata:'' e' \<in> set (fst (getChannelsData b now folderId))"
      by (simp add: getChannelsData_def Let_def split_beta m split: sum.splits)
    ultimately show "getAllMetadata b folderId
        = ([ConsoleError ''Error fetching metadata:'' e'], \<lparr>mr_documents = Some [], mr_count = Some 0\<rparr>)
      \<and> snd (getChannelsData b now folderId) = snd (getChannelsData ?b' now folderId)
      \<and> ConsoleError ''Error fetching metadata:'' e' \<in> set (fst (getChannelsData b now folderId))"
      using m by simp
  qed
  from 1 2 show ?thesis by blast
qed

theorem list_fetch_failure_degrades_witness:
  "getDocuments offline_backend None
     = ([ConsoleError ''Error fetching documents:'' NetworkError], \<lparr>dr_documents = Some []\<rparr>)
   \<and> getAllMetadata offline_backend None
     = ([ConsoleError ''Error fetching metadata:'' (Error ''Failed to fetch metadata'')],
        \<lparr>mr_documents = Some [], mr_count = Some 0\<rparr>)
   \<and> snd (getChannelsData offline_backend 1060000 None) = Inr []"
proof -
  have d: "fetch_json ''Failed to fetch documents''
             (documents_at offline_backend (documents_url offline_backend None)) = Inl NetworkError"
    by code_simp
  have m: "fetch_json ''Failed to fetch metadata''
             (metadata_at offline_backend (metadata_url offline_backend None))
           = Inl (Error ''Failed to fetch metadata'')"
    by code_simp
  show ?thesis
    using list_fetch_failure_degrades
            [of offline_backend None NetworkError 1060000 "Error ''Failed to fetch metadata''"] d m
    by simp
qed

section \<open>The identifier a revert sends\<close>

text \<open>
  Claim C7. A confirmed revert sends one request to the revert endpoint. When a
  \<open>versionId\<close> token is present (a non-empty string), the identifier in the request is
  that token, whatever the positional version number is; the decimal positional number
  is sent only when no token is present. A revert that is not confirmed sends nothing.
\<close>

theorem revert_prefers_versionId:
  "(\<forall>token. versionId' = Some token \<and> token \<noteq> [] \<longrightarrow>
       handleRevertVersion True base documentId' version' versionId'
         = [\<lparr>r_method = ''POST'', r_url = base @ ''/revert/'' @ template documentId' @ ''/'' @ token\<rparr>])
   \<and> (\<not> truthy versionId' \<longrightarrow>
       handleRevertVersion True base documentId' version' versionId'
         = [\<lparr>r_method = ''POST'',
             r_url = base @ ''/revert/'' @ template documentId' @ ''/'' @ number_toString (int version')\<rparr>])
   \<and> handleRevertVersion False base documentId' version' versionId' = []"
  by (auto simp: handleRevertVersion_def revertVersion_def truthy_def Let_def)

theorem revert_prefers_versionId_witness:
  "handleRevertVersion True ''/api/v1'' (Some ''docA-1234567'') 2 (Some ''v-b'')
     = [\<lparr>r_method = ''POST'', r_url = ''/api/v1/revert/docA-1234567/v-b''\<rparr>]
   \<and> handleRevertVersion True ''/api/v1'' (Some ''docA-1234567'') 2 None
     = [\<lparr>r_method = ''POST'', r_url = ''/api/v1/revert/docA-1234567/2''\<rparr>]"
  using revert_prefers_versionId [of "Some ''v-b''" "''/api/v1''" "Some ''docA-1234567''" 2]
    revert_prefers_versionId [of None "''/api/v1''" "Some ''docA-1234567''" 2]
  by (simp add: truthy_def template_def number_toString_def digits.simps)

section \<open>The history view\<close>



section \<open>The action count is the number of versions\<close>

text \<open>
  Claim C9. In every Channel that an aggregation pass returns, \<open>actionCount\<close> is the
  length of the Channel's \<open>versions\<close>: the callback computes it from the versions it has
  just fetched.
\<close>

theorem actionCount_is_length_versions:
  assumes "snd (getChannelsData b now folderId) = Inr chans"
  shows "\<forall>ch\<in>set chans. actionCount ch = length (versions ch)"
proof
  fix ch assume "ch \<in> set chans"
  then obtain i where i: "i < length chans" "chans ! i = ch"
    by (auto simp: in_set_conv_nth)
  let ?mm = "metadataMap_of (case mr_documents (snd (getAllMetadata b folderId)) of
                            None \<Rightarrow> [] | Some ms \<Rightarrow> ms)"
  let ?D = "case dr_documents (snd (getDocuments b folderId)) of None \<Rightarrow> [] | Some ds \<Rightarrow> ds"
  have "promise_all (map (\<lambda>doc. snd (channelOf b now ?mm doc)) ?D) = Inr chans"
    using assms by (simp add: getChannelsData_snd)
  from promise_all_Inr [OF this] i have "snd (channelOf b now ?mm (?D ! i)) = Inr ch"
    by auto
  then show "actionCount ch = length (versions ch)"
    using channelOf_Inr by blast
qed

theorem actionCount_is_length_versions_witness:
  "snd (getChannelsData example_backend 1060000 None) = Inr example_channels
   \<and> actionCount (example_channels ! 0) = length (versions (example_channels ! 0))
   \<and> length (versions (example_channels ! 0)) = 3
   \<and> actionCount (example_channels ! 1) = length (versions (example_channels ! 1))"
  using actionCount_is_length_versions [OF example_run] example_run
  by (simp add: example_channels_def)

section \<open>The time-age formatter: timestamps in the future\<close>

text \<open>
  Claim C10. When the timestamp lies after the current time, the elapsed time is
  negative, the floored seconds are below 60, and \<open>formatTimeAgo\<close> returns "just now".
\<close>

theorem formatTimeAgo_future:
  "now < date \<Longrightarrow> formatTimeAgo now date = ''just now'' \<and> (now - date) div 1000 < 60"
  unfolding formatTimeAgo_def Let_def by auto

theorem formatTimeAgo_future_witness:
  "(1000::int) < 1500 \<and> formatTimeAgo 1000 1500 = ''just now'' \<and> formatTimeAgo 0 86400001 = ''just now''"
  using formatTimeAgo_future [of 1000 1500] formatTimeAgo_future [of 0 86400001]
  by simp

end
